theory Spec2Isabelle
  imports Complex_Main
begin

section \<open>Values at the boundary of the program\<close>

text \<open>
  The scripts \<^verbatim>\<open>scripts/riskScanner.js\<close>, \<^verbatim>\<open>scripts/aggregatorMonitor.js\<close>,
  \<^verbatim>\<open>src/admin/admin.js\<close> and \<^verbatim>\<open>src/admin/adminWebApp.js\<close> talk to a database, a
  price feed, a notification channel and the module \<^verbatim>\<open>risk_control\<close>. What those
  collaborators answer is an input of the model; what the program sends them is an
  \<open>event\<close> of its run. JavaScript numbers are modelled as rationals (NaN, the infinities
  and binary rounding are outside the model).
\<close>

datatype error = DbError | NetError | TypeError | RiskControlError

text \<open>
  The result of \<^verbatim>\<open>await query(...)\<close>: \<open>Inl e\<close> when the promise rejects, \<open>Inr None\<close> for
  a result object without \<^verbatim>\<open>rows\<close>, \<open>Inr (Some rs)\<close> for the rows. A column value is
  \<open>None\<close> when it is \<^verbatim>\<open>null\<close> or absent.
\<close>

type_synonym 'r qres = "error + 'r list option"

datatype alert =
    MeltdownDetected string
  | HighErrorRate rat
  | QueueBacklog nat
  | RpcUnhealthy

datatype event =
    ConsoleLog string
  | ConsoleError string "error option"
  | AdminGlobalAlert alert
  | AdminNotification nat string
  | Acquired nat
  | Released nat
  | PauseCall nat string
  | ResumeCall nat
  | AdminLogRow nat string string
  | StatsRow rat rat rat nat nat bool bool

record config =
  priceDropThreshold :: rat
  aggregatorErrorRate :: rat
  consecutiveFailThreshold :: nat

definition RISK_SCANNER_CONFIG :: config where
  "RISK_SCANNER_CONFIG =
     \<lparr>priceDropThreshold = 10 / 100, aggregatorErrorRate = 15 / 100,
      consecutiveFailThreshold = 5\<rparr>"

section \<open>riskScanner.js: the three checks\<close>

text \<open>
  \<^verbatim>\<open>fetchCurrentBTCprice\<close>: the feed answers \<open>Inl e\<close> when \<^verbatim>\<open>fetch\<close>, \<^verbatim>\<open>response.json()\<close>
  or the access \<^verbatim>\<open>data.bitcoin.usd\<close> throws, and \<open>Inr p\<close> with the value of
  \<^verbatim>\<open>data.bitcoin.usd\<close> otherwise (\<open>None\<close> when it is undefined). The \<^verbatim>\<open>catch\<close> logs and
  returns \<^verbatim>\<open>null\<close>.
\<close>

definition fetchCurrentBTCprice :: "error + rat option \<Rightarrow> rat option \<times> event list" where
  "fetchCurrentBTCprice feed =
     (case feed of
        Inl err \<Rightarrow> (None, [ConsoleError ''Error fetching BTC price:'' (Some err)])
      | Inr usd \<Rightarrow> (usd, []))"

text \<open>\<^verbatim>\<open>parseFloat(v || '0')\<close> and \<^verbatim>\<open>parseInt(v || '0', 10)\<close> on a numeric column.\<close>

definition or_zero :: "'a::zero option \<Rightarrow> 'a" where
  "or_zero v = (case v of None \<Rightarrow> 0 | Some x \<Rightarrow> x)"

definition checkMarketConditions ::
  "config \<Rightarrow> rat option qres \<Rightarrow> (error + rat option) \<Rightarrow> bool \<times> event list" where
  "checkMarketConditions cfg oldRes feed =
     (case oldRes of
        Inl err \<Rightarrow> (False, [ConsoleError ''Error in checkMarketConditions:'' (Some err)])
      | Inr None \<Rightarrow> (False, [ConsoleError ''No BTC price data found in global_metrics'' None])
      | Inr (Some []) \<Rightarrow>
          (False, [ConsoleError ''No BTC price data found in global_metrics'' None])
      | Inr (Some (row # _)) \<Rightarrow>
          (let oldPrice = or_zero row in
           if oldPrice \<le> 0 then (False, [])
           else
             (let (currentPrice, logged) = fetchCurrentBTCprice feed in
              case currentPrice of
                None \<Rightarrow> (False, logged)
              | Some cur \<Rightarrow>
                  if cur = 0 then (False, logged)
                  else
                    (let dropPct = (oldPrice - cur) / oldPrice in
                     (if dropPct \<ge> priceDropThreshold cfg then True else False, logged)))))"

text \<open>
  In \<open>checkMarketConditions\<close> the test \<^verbatim>\<open>!currentPrice\<close> holds for \<^verbatim>\<open>null\<close>,
  \<^verbatim>\<open>undefined\<close> and the number 0: the two branches \<open>None\<close> and \<open>cur = 0\<close>.
\<close>

text \<open>
  \<^verbatim>\<open>circuitBreakerChecks\<close> has no \<^verbatim>\<open>try\<close>: a rejected query propagates, and
  \<^verbatim>\<open>failRes.rows[0]\<close> on a result without rows is a TypeError.
\<close>

definition circuitBreakerChecks :: "config \<Rightarrow> nat option qres \<Rightarrow> error + bool" where
  "circuitBreakerChecks cfg failRes =
     (case failRes of
        Inl err \<Rightarrow> Inl err
      | Inr None \<Rightarrow> Inl TypeError
      | Inr (Some rows) \<Rightarrow>
          (let failCount = (case rows of [] \<Rightarrow> 0 | row # _ \<Rightarrow> or_zero row) in
           if failCount \<ge> consecutiveFailThreshold cfg then Inr True else Inr False))"

section \<open>aggregatorMonitor.js: collecting and handling the metrics\<close>

record trade_row =
  user_id :: nat
  from_token :: string
  to_token :: string
  amount :: rat
  status :: string
  slippage :: rat
  tx_signature :: string
  time_epoch :: rat

record trade =
  userId :: nat
  pair :: string
  tradeAmount :: rat
  tradeStatus :: string
  tradeSlippage :: rat
  txSignature :: string
  time :: rat

text \<open>
  One element of \<^verbatim>\<open>recentTrades\<close>. The pair joins the two tokens with the arrow
  U+2192 (three bytes in UTF-8); \<open>time\<close> keeps the milliseconds that the source
  renders as an ISO string.
\<close>

definition to_trade :: "trade_row \<Rightarrow> trade" where
  "to_trade row =
     \<lparr>userId = user_id row,
      pair = from_token row @ [CHR 0xE2, CHR 0x86, CHR 0x92] @ to_token row,
      tradeAmount = amount row, tradeStatus = status row, tradeSlippage = slippage row,
      txSignature = tx_signature row, time = time_epoch row * 1000\<rparr>"

record stats =
  aggregator_tps :: rat
  trade_error_rate :: rat
  avgLatencyMs :: rat
  queueLength :: nat
  vault_conflict_count :: nat
  rpcHealthy :: bool
  meltdownWarnings :: bool
  recentTrades :: "trade list"

text \<open>\<^verbatim>\<open>x.toFixed(d)\<close>, kept as the number its digits denote.\<close>

definition toFixed :: "nat \<Rightarrow> rat \<Rightarrow> rat" where
  "toFixed d x = of_int (round (x * 10 ^ d)) / 10 ^ d"

text \<open>
  What the database and the RPC node answer during one call of
  \<^verbatim>\<open>collectAggregatorMetrics\<close>: the five queries in the order of the source, and
  \<open>rpc = Some e\<close> when the health check throws.
\<close>

record metrics_env =
  tps_q :: "nat option qres"
  error_q :: "(nat option \<times> nat option) qres"
  latency_q :: "rat option qres"
  conflict_q :: "nat option qres"
  rpc :: "error option"
  feed_q :: "trade_row qres"

definition first_or_zero :: "'a::zero option list \<Rightarrow> 'a" where
  "first_or_zero rows = (case rows of [] \<Rightarrow> 0 | row # _ \<Rightarrow> or_zero row)"

text \<open>
  \<^verbatim>\<open>collectAggregatorMetrics\<close> returns \<open>Inr None\<close> for \<^verbatim>\<open>null\<close>. Only the first two
  queries are inside a \<^verbatim>\<open>try\<close>; only the first is checked for missing rows. The
  columns of the error query are \<open>(fail_count, total_count)\<close>.
\<close>

definition collectAggregatorMetrics :: "metrics_env \<Rightarrow> (error + stats option) \<times> event list" where
  "collectAggregatorMetrics env =
     (case tps_q env of
        Inl err \<Rightarrow> (Inr None, [ConsoleError ''Error fetching TPS:'' (Some err)])
      | Inr None \<Rightarrow> (Inr None, [ConsoleError ''No data returned for TPS query'' None])
      | Inr (Some []) \<Rightarrow> (Inr None, [ConsoleError ''No data returned for TPS query'' None])
      | Inr (Some (tpsRow # _)) \<Rightarrow>
          (let tradesIn60 = or_zero tpsRow;
               tps = toFixed 2 (of_nat tradesIn60 / 60)
           in case error_q env of
                Inl err \<Rightarrow> (Inr None, [ConsoleError ''Error fetching error rate:'' (Some err)])
              | Inr None \<Rightarrow> (Inl TypeError, [])
              | Inr (Some []) \<Rightarrow> (Inl TypeError, [])
              | Inr (Some ((fail_count, total_count) # _)) \<Rightarrow>
                  (let failCount = or_zero fail_count;
                       totalCount = or_zero total_count;
                       rate = (if totalCount > 0 then of_nat failCount / of_nat totalCount else 0)
                   in case latency_q env of
                        Inl err \<Rightarrow> (Inl err, [])
                      | Inr None \<Rightarrow> (Inl TypeError, [])
                      | Inr (Some latencyRows) \<Rightarrow>
                          (case conflict_q env of
                             Inl err \<Rightarrow> (Inl err, [])
                           | Inr None \<Rightarrow> (Inl TypeError, [])
                           | Inr (Some conflictRows) \<Rightarrow>
                               (let rpcLog =
                                      (case rpc env of
                                         None \<Rightarrow> []
                                       | Some err \<Rightarrow>
                                           [ConsoleError ''RPC health check failed:'' (Some err)])
                                in case feed_q env of
                                     Inl err \<Rightarrow> (Inl err, rpcLog)
                                   | Inr None \<Rightarrow> (Inl TypeError, rpcLog)
                                   | Inr (Some feedRows) \<Rightarrow>
                                       (Inr (Some
                                          \<lparr>aggregator_tps = tps,
                                           trade_error_rate = rate,
                                           avgLatencyMs = first_or_zero latencyRows,
                                           queueLength = 0,
                                           vault_conflict_count = first_or_zero conflictRows,
                                           rpcHealthy = (rpc env = None),
                                           meltdownWarnings = False,
                                           recentTrades = map to_trade feedRows\<rparr>),
                                        rpcLog))))))"

text \<open>
  \<^verbatim>\<open>ERROR_RATE_THRESHOLD\<close> and \<^verbatim>\<open>QUEUE_LENGTH_THRESHOLD\<close> are read from the process
  environment when the script is loaded.
\<close>

record monitor_config =
  ERROR_RATE_THRESHOLD :: rat
  QUEUE_LENGTH_THRESHOLD :: nat

text \<open>
  \<^verbatim>\<open>handleAggregatorStats\<close> builds the parameter array from the fields of \<^verbatim>\<open>stats\<close>
  before it calls \<^verbatim>\<open>query\<close>: on \<^verbatim>\<open>null\<close> that is a TypeError. \<open>insert_q\<close> is
  \<open>Some e\<close> when the INSERT is rejected.
\<close>

definition handleAggregatorStats ::
  "monitor_config \<Rightarrow> error option \<Rightarrow> stats option \<Rightarrow> (error + unit) \<times> event list" where
  "handleAggregatorStats mc insert_q arg =
     (case arg of
        None \<Rightarrow> (Inl TypeError, [])
      | Some st \<Rightarrow>
          (case insert_q of
             Some err \<Rightarrow> (Inl err, [])
           | None \<Rightarrow>
               (Inr (),
                [StatsRow (aggregator_tps st) (trade_error_rate st) (avgLatencyMs st)
                   (queueLength st) (vault_conflict_count st) (rpcHealthy st)
                   (meltdownWarnings st)]
                @ (if trade_error_rate st > ERROR_RATE_THRESHOLD mc
                   then [AdminGlobalAlert (HighErrorRate (toFixed 1 (trade_error_rate st * 100)))]
                   else [])
                @ (if queueLength st > QUEUE_LENGTH_THRESHOLD mc
                   then [AdminGlobalAlert (QueueBacklog (queueLength st))] else [])
                @ (if \<not> rpcHealthy st then [AdminGlobalAlert RpcUnhealthy] else []))))"

definition runAggregatorMonitor ::
  "monitor_config \<Rightarrow> metrics_env \<Rightarrow> error option \<Rightarrow> (error + unit) \<times> event list" where
  "runAggregatorMonitor mc env insert_q =
     (let (collected, logged) = collectAggregatorMetrics env in
      case collected of
        Inl err \<Rightarrow> (Inl err, logged)
      | Inr arg \<Rightarrow>
          (let (handled, sent) = handleAggregatorStats mc insert_q arg in
           (handled, logged @ sent)))"

section \<open>riskScanner.js: the cycle under the advisory lock\<close>

text \<open>
  \<^verbatim>\<open>checkAggregatorMetricsForMeltdown\<close> awaits \<^verbatim>\<open>collectAggregatorMetrics()\<close> outside
  any \<^verbatim>\<open>try\<close> and reads two fields of the answer. The answer of the collector is the
  argument here: \<open>Inl e\<close> when it throws, \<open>Inr None\<close> when it returns \<^verbatim>\<open>null\<close>.
\<close>

definition checkAggregatorMetricsForMeltdown :: "config \<Rightarrow> error + stats option \<Rightarrow> error + bool" where
  "checkAggregatorMetricsForMeltdown cfg collected =
     (case collected of
        Inl err \<Rightarrow> Inl err
      | Inr None \<Rightarrow> Inl TypeError
      | Inr (Some st) \<Rightarrow>
          if trade_error_rate st > aggregatorErrorRate cfg then Inr True
          else if meltdownWarnings st then Inr True
          else Inr False)"

text \<open>
  The module \<^verbatim>\<open>risk_control\<close> is not among the sources. Its two functions are
  parameters: each takes what the callers pass (a reason, or nothing) and the trading
  state it keeps, and either throws or returns the new state. A call that throws is taken
  to leave the state as it was.
\<close>

record 's risk_control =
  pauseGlobalTrading :: "string \<Rightarrow> 's \<Rightarrow> error + 's"
  resumeGlobalTrading :: "'s \<Rightarrow> error + 's"

text \<open>
  The system state: the holder of advisory lock 12345 (a database session) and the
  trading state behind \<^verbatim>\<open>risk_control\<close>. A run returns its result, the state after
  it and the events it emitted, in order.
\<close>

record 's sys =
  gate :: "nat option"
  store :: 's

type_synonym ('a, 's) run = "(error + 'a) \<times> 's sys \<times> event list"

definition result_of :: "('a, 's) run \<Rightarrow> error + 'a" where
  "result_of r = fst r"

definition state_of :: "('a, 's) run \<Rightarrow> 's sys" where
  "state_of r = fst (snd r)"

definition events_of :: "('a, 's) run \<Rightarrow> event list" where
  "events_of r = snd (snd r)"

text \<open>
  Modelled from the spec: the database functions behind
  \<^verbatim>\<open>SELECT pg_try_advisory_lock(12345)\<close> and \<^verbatim>\<open>SELECT pg_advisory_unlock(12345)\<close>
  (reached through \<^verbatim>\<open>src/database/database.js\<close>, which is not among the sources), as
  the gate of section 4.4: a non-blocking attempt that answers at once, and an
  unconditional release by the holder.
\<close>

definition pg_try_advisory_lock :: "nat \<Rightarrow> nat option \<Rightarrow> bool \<times> nat option" where
  "pg_try_advisory_lock me g =
     (case g of None \<Rightarrow> (True, Some me) | Some holder \<Rightarrow> (False, Some holder))"

definition pg_advisory_unlock :: "nat \<Rightarrow> nat option \<Rightarrow> nat option" where
  "pg_advisory_unlock me g = (if g = Some me then None else g)"

definition meltdownDetectedAction ::
  "'s risk_control \<Rightarrow> nat \<Rightarrow> string \<Rightarrow> 's sys \<Rightarrow> (unit, 's) run" where
  "meltdownDetectedAction rc me why s =
     (let msg = ''riskScanner meltdown => '' @ why in
      case pauseGlobalTrading rc msg (store s) of
        Inl err \<Rightarrow> (Inl err, s, [PauseCall me msg])
      | Inr st \<Rightarrow>
          (Inr (), s\<lparr>store := st\<rparr>,
           [PauseCall me msg, AdminGlobalAlert (MeltdownDetected why)]))"

text \<open>What the collaborators answer during one cycle of the scanner.\<close>

record scan_env =
  oldRes :: "rat option qres"
  feed :: "error + rat option"
  metrics :: metrics_env
  failRes :: "nat option qres"

text \<open>
  The \<^verbatim>\<open>try\<close> block of \<^verbatim>\<open>runRiskScanner\<close>. The scanner imports the collector from
  \<^verbatim>\<open>src/aggregator/aggregatorMetrics\<close>; the collector of the repository is the one of
  \<^verbatim>\<open>aggregatorMonitor.js\<close>, used here.
\<close>

definition scan_try_block ::
  "config \<Rightarrow> 's risk_control \<Rightarrow> nat \<Rightarrow> scan_env \<Rightarrow> 's sys \<Rightarrow> (unit, 's) run" where
  "scan_try_block cfg rc me env s =
     (let (marketMeltdown, log1) = checkMarketConditions cfg (oldRes env) (feed env);
          triggered1 = (if marketMeltdown then True else False);
          (collected, log2) = collectAggregatorMetrics (metrics env)
      in case checkAggregatorMetricsForMeltdown cfg collected of
           Inl err \<Rightarrow> (Inl err, s, log1 @ log2)
         | Inr aggregatorMeltdown \<Rightarrow>
             (let triggered2 = (if aggregatorMeltdown then True else triggered1)
              in case circuitBreakerChecks cfg (failRes env) of
                   Inl err \<Rightarrow> (Inl err, s, log1 @ log2)
                 | Inr circuitTripped \<Rightarrow>
                     (let meltdownTriggered = (if circuitTripped then True else triggered2)
                      in if meltdownTriggered then
                           (let (r, s', sent) =
                                  meltdownDetectedAction rc me
                                    ''Flash Crash / aggregator meltdown / circuit breaker'' s
                            in (r, s', log1 @ log2 @ sent))
                         else (Inr (), s, log1 @ log2))))"

definition runRiskScanner ::
  "config \<Rightarrow> 's risk_control \<Rightarrow> nat \<Rightarrow> scan_env \<Rightarrow> 's sys \<Rightarrow> (unit, 's) run" where
  "runRiskScanner cfg rc me env s =
     (let (got_lock, g) = pg_try_advisory_lock me (gate s) in
      if \<not> got_lock then
        (Inr (), s, [ConsoleLog ''Another instance of riskScanner is already running.''])
      else
        (let (r, s', emitted) = scan_try_block cfg rc me env (s\<lparr>gate := g\<rparr>) in
         (r, s'\<lparr>gate := pg_advisory_unlock me (gate s')\<rparr>,
          Acquired me # emitted @ [Released me])))"

section \<open>admin.js and adminWebApp.js: the manual entry points\<close>

text \<open>
  \<^verbatim>\<open>logAdminAction\<close> of \<^verbatim>\<open>admin.js\<close> catches a rejected INSERT and logs it;
  \<open>log_q\<close> is \<open>Some e\<close> when the INSERT is rejected.
\<close>

definition logAdminAction :: "error option \<Rightarrow> nat \<Rightarrow> string \<Rightarrow> string \<Rightarrow> event list" where
  "logAdminAction log_q adminId action details =
     (case log_q of
        None \<Rightarrow> [AdminLogRow adminId action details]
      | Some err \<Rightarrow> [ConsoleError ''Error logging admin action:'' (Some err)])"

record admin_env =
  log_q :: "error option"
  superadmins_q :: "nat qres"
  role_q :: "nat \<Rightarrow> string qres"

text \<open>
  \<^verbatim>\<open>forceMarketPause(adminId, reason = 'Manual Admin Pause')\<close>, run in database
  session \<open>me\<close>; \<open>given = None\<close> is the omitted argument.
\<close>

definition forceMarketPause ::
  "'s risk_control \<Rightarrow> admin_env \<Rightarrow> nat \<Rightarrow> nat \<Rightarrow> string option \<Rightarrow> 's sys \<Rightarrow> (unit, 's) run" where
  "forceMarketPause rc env me adminId given s =
     (let why = (case given of None \<Rightarrow> ''Manual Admin Pause'' | Some r \<Rightarrow> r);
          logged = logAdminAction (log_q env) adminId ''forceMarketPause'' why
      in case pauseGlobalTrading rc why (store s) of
           Inl err \<Rightarrow> (Inl err, s, logged @ [PauseCall me why])
         | Inr st \<Rightarrow>
             (case superadmins_q env of
                Inl err \<Rightarrow> (Inl err, s\<lparr>store := st\<rparr>, logged @ [PauseCall me why])
              | Inr None \<Rightarrow> (Inl TypeError, s\<lparr>store := st\<rparr>, logged @ [PauseCall me why])
              | Inr (Some rows) \<Rightarrow>
                  (Inr (), s\<lparr>store := st\<rparr>,
                   logged @ [PauseCall me why]
                   @ map (\<lambda>u. AdminNotification u (''Market paused: '' @ why)) rows)))"

text \<open>
  \<^verbatim>\<open>getAdminRole\<close> as \<^verbatim>\<open>admin.js\<close> defines it; the routes import it from
  \<^verbatim>\<open>src/admin/adminRoles\<close>, which is not among the sources.
\<close>

definition getAdminRole :: "admin_env \<Rightarrow> nat \<Rightarrow> error + string" where
  "getAdminRole env uid =
     (case role_q env uid of
        Inl err \<Rightarrow> Inl err
      | Inr None \<Rightarrow> Inl TypeError
      | Inr (Some []) \<Rightarrow> Inr ''none''
      | Inr (Some (role # _)) \<Rightarrow> Inr role)"

record request =
  adminId :: nat
  body_reason :: "string option"

text \<open>A response \<^verbatim>\<open>res.status(n).json({success, message or error})\<close>.\<close>

datatype response = Json nat bool string

definition pause_ai ::
  "'s risk_control \<Rightarrow> admin_env \<Rightarrow> nat \<Rightarrow> request \<Rightarrow> 's sys \<Rightarrow> (response, 's) run" where
  "pause_ai rc env me req s =
     (case getAdminRole env (adminId req) of
        Inl err \<Rightarrow> (Inl err, s, [])
      | Inr adminRole \<Rightarrow>
          if adminRole \<noteq> ''superadmin'' then
            (Inr (Json 403 False ''Permission denied''), s, [])
          else
            (let why = (case body_reason req of
                          None \<Rightarrow> ''Manual Admin Pause''
                        | Some r \<Rightarrow> if r = [] then ''Manual Admin Pause'' else r)
             in case pauseGlobalTrading rc why (store s) of
                  Inl err \<Rightarrow> (Inl err, s, [PauseCall me why])
                | Inr st \<Rightarrow>
                    (Inr (Json 200 True ''AI Trading is paused globally.''),
                     s\<lparr>store := st\<rparr>, [PauseCall me why])))"

definition resume_ai ::
  "'s risk_control \<Rightarrow> admin_env \<Rightarrow> nat \<Rightarrow> request \<Rightarrow> 's sys \<Rightarrow> (response, 's) run" where
  "resume_ai rc env me req s =
     (case resumeGlobalTrading rc (store s) of
        Inl err \<Rightarrow>
          (Inr (Json 500 False ''An unexpected error occurred. Please try again later.''),
           s, [ResumeCall me])
      | Inr st \<Rightarrow>
          (Inr (Json 200 True ''AI Trading resumed globally.''),
           s\<lparr>store := st\<rparr>, [ResumeCall me]))"

text \<open>
  A trace respects the gate when every call of \<^verbatim>\<open>pauseGlobalTrading\<close> or
  \<^verbatim>\<open>resumeGlobalTrading\<close> in it is made by the session that holds the gate at that
  moment; \<open>h\<close> is the holder before the trace.
\<close>

fun under_gate :: "nat option \<Rightarrow> event list \<Rightarrow> bool" where
  "under_gate h [] = True"
| "under_gate h (Acquired n # es) = under_gate (Some n) es"
| "under_gate h (Released n # es) = under_gate (if h = Some n then None else h) es"
| "under_gate h (PauseCall n why # es) = (h = Some n \<and> under_gate h es)"
| "under_gate h (ResumeCall n # es) = (h = Some n \<and> under_gate h es)"
| "under_gate h (_ # es) = under_gate h es"

definition pause_reasons :: "event list \<Rightarrow> string list" where
  "pause_reasons es = concat (map (\<lambda>e. case e of PauseCall n why \<Rightarrow> [why] | _ \<Rightarrow> []) es)"

section \<open>The trading state of the specification\<close>

datatype actor = SYSTEM | ADMIN nat

record trading_state =
  enabled :: bool
  reason :: string
  changedAt :: nat
  changedBy :: actor

definition is_admin :: "actor \<Rightarrow> bool" where
  "is_admin who = (case who of SYSTEM \<Rightarrow> False | ADMIN n \<Rightarrow> True)"

text \<open>
  Modelled from the spec: \<^verbatim>\<open>TradingStateStore.pause(reason, actor)\<close> of section 4.3,
  standing for \<^verbatim>\<open>pauseGlobalTrading\<close> of \<^verbatim>\<open>src/risk/risk_control.js\<close>, which is not
  among the sources. A pause by the automatic actor does not overwrite a pause that an
  admin set; every other pause disables trading and records the new reason, time and
  actor. The callers in the sources pass the reason only: the time \<open>now\<close> and the actor
  \<open>who\<close> belong to the call site.
\<close>

definition pause :: "nat \<Rightarrow> actor \<Rightarrow> string \<Rightarrow> trading_state \<Rightarrow> trading_state" where
  "pause now who why st =
     (if \<not> enabled st \<and> who = SYSTEM \<and> is_admin (changedBy st) then st
      else \<lparr>enabled = False, reason = why, changedAt = now, changedBy = who\<rparr>)"

text \<open>A \<^verbatim>\<open>risk_control\<close> whose pause is the store's, called at time \<open>now\<close> by \<open>who\<close>.\<close>

definition acting_as ::
  "nat \<Rightarrow> actor \<Rightarrow> trading_state risk_control \<Rightarrow> trading_state risk_control" where
  "acting_as now who rc = rc\<lparr>pauseGlobalTrading := (\<lambda>why st. Inr (pause now who why st))\<rparr>"

section \<open>The decision of the specification\<close>

datatype source = MARKET | AGGREGATOR | FAILURE_BURST

text \<open>
  The three parts of the scanner's reason
  \<^verbatim>\<open>'Flash Crash / aggregator meltdown / circuit breaker'\<close>, one per source.
\<close>

definition source_reason :: "source \<Rightarrow> string" where
  "source_reason src =
     (case src of
        MARKET \<Rightarrow> ''Flash Crash''
      | AGGREGATOR \<Rightarrow> ''aggregator meltdown''
      | FAILURE_BURST \<Rightarrow> ''circuit breaker'')"

text \<open>
  The reasons of a decision in the words of the specification (section 4.2): the reasons
  of the sources that triggered, in the order market, aggregator, failure burst.
\<close>

definition decision_reasons :: "bool \<Rightarrow> bool \<Rightarrow> bool \<Rightarrow> string list" where
  "decision_reasons market aggregator burst =
     (if market then [source_reason MARKET] else [])
     @ (if aggregator then [source_reason AGGREGATOR] else [])
     @ (if burst then [source_reason FAILURE_BURST] else [])"

fun joined :: "string list \<Rightarrow> string" where
  "joined [] = []"
| "joined [r] = r"
| "joined (r # rs) = r @ '' / '' @ joined rs"

section \<open>Shapes of a query answer\<close>

definition rejected :: "'r qres \<Rightarrow> bool" where
  "rejected q = (case q of Inl err \<Rightarrow> True | Inr res \<Rightarrow> False)"

definition no_rows :: "'r qres \<Rightarrow> bool" where
  "no_rows q = (case q of Inl err \<Rightarrow> False | Inr None \<Rightarrow> True | Inr (Some rows) \<Rightarrow> rows = [])"

text \<open>Console output, which no trace property of the gate depends on.\<close>

definition console_only :: "event list \<Rightarrow> bool" where
  "console_only es =
     list_all (\<lambda>e. case e of ConsoleLog m \<Rightarrow> True | ConsoleError m err \<Rightarrow> True | _ \<Rightarrow> False) es"

section \<open>Example inputs\<close>

text \<open>
  A \<^verbatim>\<open>risk_control\<close> that keeps the flag and the last reason and never throws, and a
  state in which trading is enabled.
\<close>

definition flag_control :: "trading_state risk_control" where
  "flag_control =
     \<lparr>pauseGlobalTrading = (\<lambda>why st. Inr (st\<lparr>enabled := False, reason := why\<rparr>)),
      resumeGlobalTrading = (\<lambda>st. Inr (st\<lparr>enabled := True\<rparr>))\<rparr>"

definition trading_on :: trading_state where
  "trading_on = \<lparr>enabled = True, reason = [], changedAt = 0, changedBy = SYSTEM\<rparr>"

text \<open>
  Scenario B of the specification: error rate 0.05, two failures in the window, price
  nearly unchanged, every query answered.
\<close>

definition calm_metrics :: metrics_env where
  "calm_metrics =
     \<lparr>tps_q = Inr (Some [Some 120]), error_q = Inr (Some [(Some 1, Some 20)]),
      latency_q = Inr (Some [Some 35]), conflict_q = Inr (Some [Some 0]),
      rpc = None, feed_q = Inr (Some [])\<rparr>"

definition calm_env :: scan_env where
  "calm_env =
     \<lparr>oldRes = Inr (Some [Some 100]), feed = Inr (Some 99), metrics = calm_metrics,
      failRes = Inr (Some [Some 2])\<rparr>"

definition quiet_admin :: admin_env where
  "quiet_admin =
     \<lparr>log_q = None, superadmins_q = Inr (Some [1]),
      role_q = (\<lambda>uid. if uid = 1 then Inr (Some [''superadmin''])
                       else if uid = 7 then Inr (Some [''tradermanager''])
                       else Inr (Some []))\<rparr>"

text \<open>
  Scenario A: the recorded price is 100 and the feed answers 85, a drop of 15 percent;
  the other two sources stay calm.
\<close>

definition crash_env :: scan_env where
  "crash_env = calm_env\<lparr>feed := Inr (Some 85)\<rparr>"

text \<open>
  The price has dropped by 15 percent and ten executions failed in the window, but the
  first query of the collector is rejected.
\<close>

definition degraded_env :: scan_env where
  "degraded_env =
     \<lparr>oldRes = Inr (Some [Some 100]), feed = Inr (Some 85),
      metrics = calm_metrics\<lparr>tps_q := Inl DbError\<rparr>,
      failRes = Inr (Some [Some 10])\<rparr>"

definition idle :: "trading_state sys" where
  "idle = \<lparr>gate = None, store = trading_on\<rparr>"

text \<open>Session 1 holds the gate, as during a cycle of the scanner.\<close>

definition mid_cycle :: "trading_state sys" where
  "mid_cycle = \<lparr>gate = Some 1, store = trading_on\<rparr>"

text \<open>Trading paused by admin 1, a superadmin.\<close>

definition admin_paused :: "trading_state sys" where
  "admin_paused =
     \<lparr>gate = None,
      store = \<lparr>enabled = False, reason = ''Manual Admin Pause'', changedAt = 5,
               changedBy = ADMIN 1\<rparr>\<rparr>"

definition monitor_defaults :: monitor_config where
  "monitor_defaults = \<lparr>ERROR_RATE_THRESHOLD = 1 / 10, QUEUE_LENGTH_THRESHOLD = 20\<rparr>"

section \<open>The market check\<close>

text \<open>
  C5, as the code has it: with a recorded price above zero, \<open>checkMarketConditions\<close>
  reports a meltdown exactly when the feed's price is not zero and the relative drop
  \<open>(old - current) / old\<close> reaches \<open>priceDropThreshold\<close>, for every configuration. When
  \<^verbatim>\<open>fetchCurrentBTCprice\<close> fails, the check reports no meltdown and the failure is
  written to the console; a feed without a price, a missing or zero recorded price and an
  empty or missing row set report no meltdown either.
\<close>

theorem market_shock_rule:
  assumes "0 < old"
  shows "fst (checkMarketConditions cfg (Inr (Some (Some old # rest))) (Inr (Some cur))) =
           (cur \<noteq> 0 \<and> priceDropThreshold cfg \<le> (old - cur) / old) \<and>
         checkMarketConditions cfg (Inr (Some (Some old # rest))) (Inl err) =
           (False, [ConsoleError ''Error fetching BTC price:'' (Some err)]) \<and>
         fst (checkMarketConditions cfg (Inr (Some (Some old # rest))) (Inr None)) = False \<and>
         fst (checkMarketConditions cfg (Inr (Some (None # rest))) fd) = False \<and>
         fst (checkMarketConditions cfg (Inr (Some (Some 0 # rest))) fd) = False \<and>
         fst (checkMarketConditions cfg (Inr (Some [])) fd) = False \<and>
         fst (checkMarketConditions cfg (Inr None) fd) = False"
  using assms
  by (simp add: checkMarketConditions_def fetchCurrentBTCprice_def or_zero_def Let_def)

theorem market_shock_rule_witness:
  "(0::rat) < 100 \<and>
   fst (checkMarketConditions RISK_SCANNER_CONFIG (Inr (Some [Some 100])) (Inr (Some 85))) = True \<and>
   fst (checkMarketConditions RISK_SCANNER_CONFIG (Inr (Some [Some 100])) (Inr (Some 95))) = False"
proof -
  have h: "(0::rat) < 100" by simp
  show ?thesis
    using market_shock_rule [OF h, of RISK_SCANNER_CONFIG "[]" 85]
      market_shock_rule [OF h, of RISK_SCANNER_CONFIG "[]" 95]
    by (simp add: RISK_SCANNER_CONFIG_def)
qed

theorem zero_current_price_counterexample:
  "(0::rat) < 100 \<and>
   priceDropThreshold RISK_SCANNER_CONFIG \<le> (100 - 0) / 100 \<and>
   fst (checkMarketConditions RISK_SCANNER_CONFIG (Inr (Some [Some 100])) (Inr (Some 0))) = False"
  by (simp add: checkMarketConditions_def fetchCurrentBTCprice_def or_zero_def
      RISK_SCANNER_CONFIG_def)

section \<open>The aggregator check\<close>

lemma collected_rate:
  assumes "fst (collectAggregatorMetrics env) = Inr (Some st)"
    and "error_q env = Inr (Some ((fc, tc) # rest))"
  shows "trade_error_rate st =
           (if 0 < or_zero tc then of_nat (or_zero fc) / of_nat (or_zero tc) else 0) \<and>
         \<not> meltdownWarnings st"
  using assms
  by (auto simp: collectAggregatorMetrics_def Let_def
      split: sum.splits option.splits list.splits)

text \<open>
  C6, as the code has it: on a stats record, \<open>checkAggregatorMetricsForMeltdown\<close> reports
  a meltdown exactly when the error rate is strictly greater than \<open>aggregatorErrorRate\<close>
  or the warning flag is set. When the window holds no execution
  (\<open>total_count\<close> zero or null), the collector's error rate is 0 and, for a threshold
  that is not negative, the check on the collector's answer reports no meltdown.
\<close>

theorem aggregator_health_rule:
  "checkAggregatorMetricsForMeltdown cfg (Inr (Some st)) =
     Inr (aggregatorErrorRate cfg < trade_error_rate st \<or> meltdownWarnings st) \<and>
   (fst (collectAggregatorMetrics env) = Inr (Some st') \<and>
    error_q env = Inr (Some ((fc, tc) # rest)) \<and> or_zero tc = 0 \<and>
    0 \<le> aggregatorErrorRate cfg \<longrightarrow>
      trade_error_rate st' = 0 \<and>
      checkAggregatorMetricsForMeltdown cfg (fst (collectAggregatorMetrics env)) = Inr False)"
proof (intro conjI impI)
  show "checkAggregatorMetricsForMeltdown cfg (Inr (Some st)) =
     Inr (aggregatorErrorRate cfg < trade_error_rate st \<or> meltdownWarnings st)"
    by (simp add: checkAggregatorMetricsForMeltdown_def)
next
  assume h: "fst (collectAggregatorMetrics env) = Inr (Some st') \<and>
    error_q env = Inr (Some ((fc, tc) # rest)) \<and> or_zero tc = 0 \<and>
    0 \<le> aggregatorErrorRate cfg"
  then have r: "trade_error_rate st' = 0 \<and> \<not> meltdownWarnings st'"
    using collected_rate [of env st' fc tc rest] by simp
  then show "trade_error_rate st' = 0" by simp
  from h r show "checkAggregatorMetricsForMeltdown cfg (fst (collectAggregatorMetrics env)) = Inr False"
    by (simp add: checkAggregatorMetricsForMeltdown_def)
qed

theorem aggregator_health_rule_witness:
  "checkAggregatorMetricsForMeltdown RISK_SCANNER_CONFIG
     (fst (collectAggregatorMetrics (calm_metrics\<lparr>error_q := Inr (Some [(Some 0, Some 0)])\<rparr>)))
     = Inr False"
proof -
  let ?env = "calm_metrics\<lparr>error_q := Inr (Some [(Some 0, Some 0)])\<rparr>"
  obtain st where c: "fst (collectAggregatorMetrics ?env) = Inr (Some st)"
    by (simp add: collectAggregatorMetrics_def calm_metrics_def Let_def)
  have "error_q ?env = Inr (Some [(Some 0, Some 0)]) \<and> or_zero (Some (0::nat)) = 0 \<and>
        0 \<le> aggregatorErrorRate RISK_SCANNER_CONFIG"
    by (simp add: or_zero_def RISK_SCANNER_CONFIG_def)
  with c show ?thesis
    using aggregator_health_rule [of RISK_SCANNER_CONFIG st ?env st "Some 0" "Some 0" "[]"]
    by blast
qed

theorem equal_rate_counterexample:
  "aggregatorErrorRate RISK_SCANNER_CONFIG \<le> 3 / 20 \<and>
   checkAggregatorMetricsForMeltdown RISK_SCANNER_CONFIG
     (fst (collectAggregatorMetrics (calm_metrics\<lparr>error_q := Inr (Some [(Some 3, Some 20)])\<rparr>)))
     = Inr False"
  by (simp add: checkAggregatorMetricsForMeltdown_def collectAggregatorMetrics_def
      calm_metrics_def RISK_SCANNER_CONFIG_def or_zero_def Let_def)

section \<open>The gate around a cycle\<close>

lemma meltdown_gate: "gate (state_of (meltdownDetectedAction rc me why s)) = gate s"
  by (simp add: meltdownDetectedAction_def state_of_def Let_def split: sum.splits)

lemma try_block_gate: "gate (state_of (scan_try_block cfg rc me env s)) = gate s"
proof -
  obtain r s' sent where m:
    "meltdownDetectedAction rc me ''Flash Crash / aggregator meltdown / circuit breaker'' s
       = (r, s', sent)"
    by (metis prod_cases3)
  have "gate s' = gate s"
    using meltdown_gate [of rc me "''Flash Crash / aggregator meltdown / circuit breaker''" s]
    by (simp add: m state_of_def)
  then show ?thesis
    by (simp add: scan_try_block_def state_of_def Let_def m split: sum.splits prod.splits)
qed

text \<open>
  C8: a cycle that finds the gate free acquires it, runs the \<^verbatim>\<open>try\<close> block, and
  releases it as its last event, whatever the block returns or raises: the gate is free
  after the cycle.
\<close>

theorem gate_released_on_every_exit:
  "gate s = None \<Longrightarrow>
   gate (state_of (runRiskScanner cfg rc me env s)) = None \<and>
   events_of (runRiskScanner cfg rc me env s) =
     Acquired me # events_of (scan_try_block cfg rc me env (s\<lparr>gate := Some me\<rparr>)) @ [Released me]"
proof -
  assume free: "gate s = None"
  obtain r s' emitted where b: "scan_try_block cfg rc me env (s\<lparr>gate := Some me\<rparr>) = (r, s', emitted)"
    by (metis prod_cases3)
  have "gate s' = Some me"
    using try_block_gate [of cfg rc me env "s\<lparr>gate := Some me\<rparr>"] by (simp add: b state_of_def)
  then show ?thesis
    by (simp add: runRiskScanner_def pg_try_advisory_lock_def pg_advisory_unlock_def
        state_of_def events_of_def free b)
qed

theorem gate_released_on_every_exit_witness:
  "gate idle = None \<and>
   result_of (runRiskScanner RISK_SCANNER_CONFIG flag_control 1 degraded_env idle) = Inl TypeError \<and>
   gate (state_of (runRiskScanner RISK_SCANNER_CONFIG flag_control 1 degraded_env idle)) = None"
proof -
  have h: "gate idle = None" by (simp add: idle_def)
  have r: "result_of (runRiskScanner RISK_SCANNER_CONFIG flag_control 1 degraded_env idle) = Inl TypeError"
    by (simp add: runRiskScanner_def scan_try_block_def pg_try_advisory_lock_def
        checkMarketConditions_def fetchCurrentBTCprice_def collectAggregatorMetrics_def
        checkAggregatorMetricsForMeltdown_def degraded_env_def calm_metrics_def idle_def
        result_of_def or_zero_def Let_def)
  show ?thesis
    using h r gate_released_on_every_exit [OF h, of RISK_SCANNER_CONFIG flag_control 1 degraded_env]
    by simp
qed

text \<open>
  C9: when the gate is held, the attempt of \<open>runRiskScanner\<close> fails at once and the
  cycle returns normally: the state (gate and trading state) is unchanged, and the only
  event is one console line, so \<^verbatim>\<open>pauseGlobalTrading\<close> is not called and no alert is
  sent.
\<close>

theorem busy_cycle_skips:
  "gate s = Some holder \<Longrightarrow>
   runRiskScanner cfg rc me env s =
     (Inr (), s, [ConsoleLog ''Another instance of riskScanner is already running.''])"
  by (simp add: runRiskScanner_def pg_try_advisory_lock_def)

theorem busy_cycle_skips_witness:
  "gate \<lparr>gate = Some 2, store = trading_on\<rparr> = Some 2 \<and>
   runRiskScanner RISK_SCANNER_CONFIG flag_control 1
       crash_env \<lparr>gate = Some 2, store = trading_on\<rparr> =
     (Inr (), \<lparr>gate = Some 2, store = trading_on\<rparr>,
      [ConsoleLog ''Another instance of riskScanner is already running.''])"
  using busy_cycle_skips [of "\<lparr>gate = Some 2, store = trading_on\<rparr>" 2 RISK_SCANNER_CONFIG
      flag_control 1 crash_env]
  by simp

section \<open>The monitor on a missing stats record\<close>

text \<open>
  C10: when the trades-per-second query is rejected or answers without rows, or the
  error-rate query is rejected, \<open>collectAggregatorMetrics\<close> returns \<^verbatim>\<open>null\<close>;
  \<open>handleAggregatorStats\<close> on \<^verbatim>\<open>null\<close> raises a TypeError before it stores or sends
  anything; and \<open>runAggregatorMonitor\<close> passes the \<^verbatim>\<open>null\<close> on, so the cycle ends in
  that TypeError with the collector's console output only. (The error-rate query is an
  ungrouped aggregate, which answers one row on any table.)
\<close>

theorem null_metrics_fault_monitor:
  assumes "rejected (tps_q env) \<or> no_rows (tps_q env) \<or> rejected (error_q env)"
  shows "fst (collectAggregatorMetrics env) = Inr None \<and>
         handleAggregatorStats mc insert_q None = (Inl TypeError, []) \<and>
         runAggregatorMonitor mc env insert_q = (Inl TypeError, snd (collectAggregatorMetrics env))"
proof -
  have n: "fst (collectAggregatorMetrics env) = Inr None"
    using assms
    by (auto simp: collectAggregatorMetrics_def rejected_def no_rows_def Let_def
        split: sum.splits option.splits list.splits)
  have h: "handleAggregatorStats mc insert_q None = (Inl TypeError, [])"
    by (simp add: handleAggregatorStats_def)
  obtain logged where c: "collectAggregatorMetrics env = (Inr None, logged)"
    using n by (cases "collectAggregatorMetrics env") simp
  show ?thesis
    using n h by (simp add: runAggregatorMonitor_def c)
qed

theorem null_metrics_fault_monitor_witness:
  "rejected (error_q (calm_metrics\<lparr>error_q := Inl DbError\<rparr>)) \<and>
   runAggregatorMonitor monitor_defaults (calm_metrics\<lparr>error_q := Inl DbError\<rparr>) None =
     (Inl TypeError, [ConsoleError ''Error fetching error rate:'' (Some DbError)])"
proof -
  have h: "rejected (error_q (calm_metrics\<lparr>error_q := Inl DbError\<rparr>))"
    by (simp add: rejected_def)
  then show ?thesis
    using null_metrics_fault_monitor [of "calm_metrics\<lparr>error_q := Inl DbError\<rparr>"
        monitor_defaults None]
    by (simp add: collectAggregatorMetrics_def calm_metrics_def Let_def)
qed

section \<open>What a cycle emits\<close>

lemma console_market: "console_only (snd (checkMarketConditions cfg q fd))"
  by (simp add: checkMarketConditions_def fetchCurrentBTCprice_def console_only_def Let_def
      split: sum.splits option.splits list.splits)

lemma console_collect: "console_only (snd (collectAggregatorMetrics env))"
  by (simp add: collectAggregatorMetrics_def console_only_def Let_def
      split: sum.splits option.splits list.splits prod.splits)

lemma pause_reasons_append: "pause_reasons (xs @ ys) = pause_reasons xs @ pause_reasons ys"
  by (simp add: pause_reasons_def)

lemma pause_reasons_Cons:
  "pause_reasons (e # es) =
     (case e of PauseCall n why \<Rightarrow> [why] | _ \<Rightarrow> []) @ pause_reasons es"
  by (simp add: pause_reasons_def)

lemma pause_reasons_console: "console_only es \<Longrightarrow> pause_reasons es = []"
  by (induction es) (auto simp: pause_reasons_def console_only_def split: event.splits)

lemma under_gate_console: "console_only es \<Longrightarrow> under_gate h (es @ rest) = under_gate h rest"
  by (induction es) (auto simp: console_only_def split: event.splits)

lemma meltdown_events:
  "events_of (meltdownDetectedAction rc me why s) =
     (case pauseGlobalTrading rc (''riskScanner meltdown => '' @ why) (store s) of
        Inl err \<Rightarrow> [PauseCall me (''riskScanner meltdown => '' @ why)]
      | Inr st \<Rightarrow> [PauseCall me (''riskScanner meltdown => '' @ why),
                    AdminGlobalAlert (MeltdownDetected why)])"
  by (simp add: meltdownDetectedAction_def events_of_def Let_def split: sum.splits)

lemma try_block_events:
  "events_of (scan_try_block cfg rc me env s) =
     snd (checkMarketConditions cfg (oldRes env) (feed env))
     @ snd (collectAggregatorMetrics (metrics env))
     @ (case checkAggregatorMetricsForMeltdown cfg (fst (collectAggregatorMetrics (metrics env))) of
          Inl err \<Rightarrow> []
        | Inr a \<Rightarrow>
            (case circuitBreakerChecks cfg (failRes env) of
               Inl err \<Rightarrow> []
             | Inr c \<Rightarrow>
                 if fst (checkMarketConditions cfg (oldRes env) (feed env)) \<or> a \<or> c
                 then events_of (meltdownDetectedAction rc me
                        ''Flash Crash / aggregator meltdown / circuit breaker'' s)
                 else []))"
  by (simp add: scan_try_block_def events_of_def Let_def split: sum.splits prod.splits)


lemma scanner_events_free:
  assumes "gate s = None"
  shows "events_of (runRiskScanner cfg rc me env s) =
           Acquired me # events_of (scan_try_block cfg rc me env (s\<lparr>gate := Some me\<rparr>))
           @ [Released me]"
proof -
  obtain r s' emitted where b:
    "scan_try_block cfg rc me env (s\<lparr>gate := Some me\<rparr>) = (r, s', emitted)"
    by (metis prod_cases3)
  show ?thesis
    by (simp add: runRiskScanner_def pg_try_advisory_lock_def events_of_def assms b)
qed

lemma crash_sources:
  "fst (checkMarketConditions RISK_SCANNER_CONFIG (oldRes crash_env) (feed crash_env)) = True \<and>
   checkAggregatorMetricsForMeltdown RISK_SCANNER_CONFIG
     (fst (collectAggregatorMetrics (metrics crash_env))) = Inr False \<and>
   circuitBreakerChecks RISK_SCANNER_CONFIG (failRes crash_env) = Inr False"
  by (simp add: checkMarketConditions_def fetchCurrentBTCprice_def
      checkAggregatorMetricsForMeltdown_def collectAggregatorMetrics_def
      circuitBreakerChecks_def crash_env_def calm_env_def calm_metrics_def
      RISK_SCANNER_CONFIG_def or_zero_def Let_def)

section \<open>The decision of a cycle\<close>

text \<open>
  C4, as the code has it: in a cycle that finds the gate free, in which neither the
  aggregator check nor the failure-burst check raises and at least one of the three
  sources triggers, \<open>runRiskScanner\<close> takes the meltdown action between acquiring and
  releasing the gate, and the one reason it passes to \<^verbatim>\<open>pauseGlobalTrading\<close> is the
  fixed text naming market, aggregator and circuit breaker in that order, whichever of
  the sources triggered.
\<close>

theorem meltdown_reason_fixed:
  assumes free: "gate s = None"
    and agg: "checkAggregatorMetricsForMeltdown cfg
                (fst (collectAggregatorMetrics (metrics env))) = Inr a"
    and burst: "circuitBreakerChecks cfg (failRes env) = Inr c"
    and some: "fst (checkMarketConditions cfg (oldRes env) (feed env)) \<or> a \<or> c"
  shows "events_of (runRiskScanner cfg rc me env s) =
           Acquired me # snd (checkMarketConditions cfg (oldRes env) (feed env))
           @ snd (collectAggregatorMetrics (metrics env))
           @ events_of (meltdownDetectedAction rc me
               ''Flash Crash / aggregator meltdown / circuit breaker'' (s\<lparr>gate := Some me\<rparr>))
           @ [Released me] \<and>
         pause_reasons (events_of (runRiskScanner cfg rc me env s)) =
           [''riskScanner meltdown => Flash Crash / aggregator meltdown / circuit breaker'']"
proof -
  have ev: "events_of (runRiskScanner cfg rc me env s) =
           Acquired me # snd (checkMarketConditions cfg (oldRes env) (feed env))
           @ snd (collectAggregatorMetrics (metrics env))
           @ events_of (meltdownDetectedAction rc me
               ''Flash Crash / aggregator meltdown / circuit breaker'' (s\<lparr>gate := Some me\<rparr>))
           @ [Released me]"
    using some by (simp add: scanner_events_free [OF free] try_block_events agg burst)
  have m: "pause_reasons (events_of (meltdownDetectedAction rc me
               ''Flash Crash / aggregator meltdown / circuit breaker'' (s\<lparr>gate := Some me\<rparr>))) =
           [''riskScanner meltdown => Flash Crash / aggregator meltdown / circuit breaker'']"
    by (simp add: meltdown_events pause_reasons_def split: sum.splits)
  have "pause_reasons (events_of (runRiskScanner cfg rc me env s)) =
           [''riskScanner meltdown => Flash Crash / aggregator meltdown / circuit breaker'']"
    unfolding ev
    using pause_reasons_console [OF console_market [of cfg "oldRes env" "feed env"]]
      pause_reasons_console [OF console_collect [of "metrics env"]] m
    by (simp add: pause_reasons_append pause_reasons_Cons) (simp add: pause_reasons_def)
  with ev show ?thesis by blast
qed

theorem meltdown_reason_fixed_witness:
  "gate idle = None \<and>
   fst (checkMarketConditions RISK_SCANNER_CONFIG (oldRes crash_env) (feed crash_env)) \<and>
   pause_reasons (events_of (runRiskScanner RISK_SCANNER_CONFIG flag_control 1 crash_env idle)) =
     [''riskScanner meltdown => Flash Crash / aggregator meltdown / circuit breaker'']"
proof -
  have h: "gate idle = None" by (simp add: idle_def)
  have t: "fst (checkMarketConditions RISK_SCANNER_CONFIG (oldRes crash_env) (feed crash_env))
           \<or> False \<or> False"
    using crash_sources by simp
  have "pause_reasons (events_of (runRiskScanner RISK_SCANNER_CONFIG flag_control 1 crash_env idle)) =
     [''riskScanner meltdown => Flash Crash / aggregator meltdown / circuit breaker'']"
    using meltdown_reason_fixed [OF h conjunct1 [OF conjunct2 [OF crash_sources]]
        conjunct2 [OF conjunct2 [OF crash_sources]] t, of flag_control 1]
    by blast
  with h t show ?thesis by simp
qed

theorem reasons_of_untriggered_sources_counterexample:
  "fst (checkMarketConditions RISK_SCANNER_CONFIG (oldRes crash_env) (feed crash_env)) = True \<and>
   checkAggregatorMetricsForMeltdown RISK_SCANNER_CONFIG
     (fst (collectAggregatorMetrics (metrics crash_env))) = Inr False \<and>
   circuitBreakerChecks RISK_SCANNER_CONFIG (failRes crash_env) = Inr False \<and>
   pause_reasons (events_of (runRiskScanner RISK_SCANNER_CONFIG flag_control 1 crash_env idle)) =
     [''riskScanner meltdown => '' @ joined (decision_reasons True True True)] \<and>
   joined (decision_reasons True True True) \<noteq> joined (decision_reasons True False False)"
proof -
  have h: "gate idle = None" by (simp add: idle_def)
  have "events_of (runRiskScanner RISK_SCANNER_CONFIG flag_control 1 crash_env idle) =
          [Acquired 1,
           PauseCall 1 ''riskScanner meltdown => Flash Crash / aggregator meltdown / circuit breaker'',
           AdminGlobalAlert (MeltdownDetected ''Flash Crash / aggregator meltdown / circuit breaker''),
           Released 1]"
    using crash_sources
    by (simp add: scanner_events_free [OF h] try_block_events meltdown_events flag_control_def)
      (simp add: checkMarketConditions_def fetchCurrentBTCprice_def collectAggregatorMetrics_def
        crash_env_def calm_env_def calm_metrics_def or_zero_def Let_def)
  then show ?thesis
    using crash_sources
    by (simp add: pause_reasons_def decision_reasons_def source_reason_def)
qed

text \<open>
  C1 at an input where it fails: the price has dropped by 15 percent, ten executions
  failed in the window, and the collector's first query is rejected. The collector
  returns \<^verbatim>\<open>null\<close>, the aggregator check raises a TypeError on it, and the cycle ends
  with that error: the failure-burst check is not reached, no pause is made and no alert
  is sent, although the market check triggered and the failure-burst check would have.
\<close>

theorem aggregator_failure_aborts_cycle:
  "fst (checkMarketConditions RISK_SCANNER_CONFIG (oldRes degraded_env) (feed degraded_env)) = True \<and>
   circuitBreakerChecks RISK_SCANNER_CONFIG (failRes degraded_env) = Inr True \<and>
   runRiskScanner RISK_SCANNER_CONFIG flag_control 1 degraded_env idle =
     (Inl TypeError, idle,
      [Acquired 1, ConsoleError ''Error fetching TPS:'' (Some DbError), Released 1])"
  by (simp add: runRiskScanner_def scan_try_block_def pg_try_advisory_lock_def
      pg_advisory_unlock_def checkMarketConditions_def fetchCurrentBTCprice_def
      collectAggregatorMetrics_def checkAggregatorMetricsForMeltdown_def
      circuitBreakerChecks_def degraded_env_def calm_metrics_def idle_def
      RISK_SCANNER_CONFIG_def or_zero_def Let_def)

section \<open>Manual overrides and the gate\<close>

lemma scanner_respects_gate:
  "under_gate (gate s) (events_of (runRiskScanner cfg rc me env s))"
proof (cases "gate s")
  case (Some holder)
  then show ?thesis
    by (simp add: runRiskScanner_def pg_try_advisory_lock_def events_of_def)
next
  case None
  have "under_gate (Some me)
          (events_of (scan_try_block cfg rc me env (s\<lparr>gate := Some me\<rparr>)) @ [Released me])"
    unfolding try_block_events
    using console_market [of cfg "oldRes env" "feed env"] console_collect [of "metrics env"]
    by (simp add: under_gate_console meltdown_events split: sum.splits)
  then show ?thesis
    by (simp add: scanner_events_free [OF None] None)
qed

lemma force_pause_unguarded:
  assumes "gate s \<noteq> Some me"
  shows "\<not> under_gate (gate s) (events_of (forceMarketPause rc aenv me a given s))"
  using assms
  by (auto simp: forceMarketPause_def logAdminAction_def events_of_def Let_def
      split: sum.splits option.splits)

text \<open>
  C2, as the code has it: no manual entry point touches the gate. In a session that does
  not hold the gate, \<open>forceMarketPause\<close>, the route \<open>resume_ai\<close> and (for a superadmin)
  the route \<open>pause_ai\<close> call \<^verbatim>\<open>risk_control\<close> all the same and leave the gate as
  it was, so their traces do not respect the gate; the trace of a scanner cycle does.
\<close>

theorem manual_override_bypasses_gate:
  assumes "gate s \<noteq> Some me"
  shows "\<not> under_gate (gate s) (events_of (forceMarketPause rc aenv me a given s)) \<and>
         gate (state_of (forceMarketPause rc aenv me a given s)) = gate s \<and>
         \<not> under_gate (gate s) (events_of (resume_ai rc aenv me req s)) \<and>
         gate (state_of (resume_ai rc aenv me req s)) = gate s \<and>
         (getAdminRole aenv (adminId req) = Inr ''superadmin'' \<longrightarrow>
            \<not> under_gate (gate s) (events_of (pause_ai rc aenv me req s)) \<and>
            gate (state_of (pause_ai rc aenv me req s)) = gate s) \<and>
         under_gate (gate s) (events_of (runRiskScanner cfg rc scanner env s))"
proof -
  have f: "gate (state_of (forceMarketPause rc aenv me a given s)) = gate s"
    by (simp add: forceMarketPause_def state_of_def Let_def split: sum.splits option.splits)
  have r: "\<not> under_gate (gate s) (events_of (resume_ai rc aenv me req s)) \<and>
         gate (state_of (resume_ai rc aenv me req s)) = gate s"
    using assms
    by (simp add: resume_ai_def events_of_def state_of_def split: sum.splits)
  have p: "getAdminRole aenv (adminId req) = Inr ''superadmin'' \<longrightarrow>
            \<not> under_gate (gate s) (events_of (pause_ai rc aenv me req s)) \<and>
            gate (state_of (pause_ai rc aenv me req s)) = gate s"
    using assms
    by (simp add: pause_ai_def events_of_def state_of_def Let_def split: sum.splits)
  show ?thesis
    using force_pause_unguarded [OF assms] f r p scanner_respects_gate by blast
qed

theorem manual_override_bypasses_gate_witness:
  "gate mid_cycle \<noteq> Some 2 \<and>
   getAdminRole quiet_admin (adminId \<lparr>adminId = 1, body_reason = None\<rparr>) = Inr ''superadmin'' \<and>
   \<not> under_gate (gate mid_cycle)
       (events_of (pause_ai flag_control quiet_admin 2 \<lparr>adminId = 1, body_reason = None\<rparr> mid_cycle)) \<and>
   \<not> under_gate (gate mid_cycle)
       (events_of (forceMarketPause flag_control quiet_admin 2 1 None mid_cycle))"
proof -
  have h: "gate mid_cycle \<noteq> Some 2" by (simp add: mid_cycle_def)
  have g: "getAdminRole quiet_admin (adminId \<lparr>adminId = 1, body_reason = None\<rparr>) = Inr ''superadmin''"
    by (simp add: getAdminRole_def quiet_admin_def)
  show ?thesis
    using h g manual_override_bypasses_gate [OF h, of flag_control quiet_admin 1 None
        "\<lparr>adminId = 1, body_reason = None\<rparr>" RISK_SCANNER_CONFIG 1 calm_env]
    by blast
qed

theorem manual_pause_during_cycle_counterexample:
  "gate mid_cycle = Some 1 \<and>
   forceMarketPause flag_control quiet_admin 2 1 None mid_cycle =
     (Inr (),
      \<lparr>gate = Some 1,
       store = \<lparr>enabled = False, reason = ''Manual Admin Pause'', changedAt = 0,
                changedBy = SYSTEM\<rparr>\<rparr>,
      [AdminLogRow 1 ''forceMarketPause'' ''Manual Admin Pause'',
       PauseCall 2 ''Manual Admin Pause'',
       AdminNotification 1 ''Market paused: Manual Admin Pause'']) \<and>
   \<not> under_gate (Some 1)
       [AdminLogRow 1 ''forceMarketPause'' ''Manual Admin Pause'',
        PauseCall 2 ''Manual Admin Pause'',
        AdminNotification 1 ''Market paused: Manual Admin Pause'']"
  by (simp add: forceMarketPause_def logAdminAction_def flag_control_def quiet_admin_def
      mid_cycle_def trading_on_def Let_def)

section \<open>Precedence of an admin's pause\<close>

text \<open>
  C3, on the store of the specification: when trading is paused, the automatic meltdown
  action leaves a pause set by an admin exactly as it was (reason, actor and time), and
  replaces a pause set by the automatic actor with its own reason and time.
\<close>

theorem admin_pause_not_overwritten:
  assumes "\<not> enabled (store s)"
  shows "(changedBy (store s) = ADMIN a \<longrightarrow>
            store (state_of (meltdownDetectedAction (acting_as now SYSTEM rc) me why s)) = store s) \<and>
         (changedBy (store s) = SYSTEM \<longrightarrow>
            store (state_of (meltdownDetectedAction (acting_as now SYSTEM rc) me why s)) =
              \<lparr>enabled = False, reason = ''riskScanner meltdown => '' @ why, changedAt = now,
               changedBy = SYSTEM\<rparr>)"
  using assms
  by (simp add: meltdownDetectedAction_def acting_as_def pause_def is_admin_def state_of_def Let_def)

theorem admin_pause_not_overwritten_witness:
  "\<not> enabled (store (state_of (forceMarketPause (acting_as 5 (ADMIN 1) flag_control) quiet_admin 2 1 None idle))) \<and>
   changedBy (store (state_of (forceMarketPause (acting_as 5 (ADMIN 1) flag_control) quiet_admin 2 1 None idle))) = ADMIN 1 \<and>
   store (state_of (meltdownDetectedAction (acting_as 9 SYSTEM flag_control) 1 ''Flash Crash''
      (state_of (forceMarketPause (acting_as 5 (ADMIN 1) flag_control) quiet_admin 2 1 None idle)))) =
     \<lparr>enabled = False, reason = ''Manual Admin Pause'', changedAt = 5, changedBy = ADMIN 1\<rparr> \<and>
   \<not> enabled (store (state_of (meltdownDetectedAction (acting_as 7 SYSTEM flag_control) 1 ''first'' idle))) \<and>
   changedBy (store (state_of (meltdownDetectedAction (acting_as 7 SYSTEM flag_control) 1 ''first'' idle))) = SYSTEM \<and>
   reason (store (state_of (meltdownDetectedAction (acting_as 9 SYSTEM flag_control) 1 ''second''
      (state_of (meltdownDetectedAction (acting_as 7 SYSTEM flag_control) 1 ''first'' idle))))) =
     ''riskScanner meltdown => second''"
proof -
  let ?s1 = "state_of (forceMarketPause (acting_as 5 (ADMIN 1) flag_control) quiet_admin 2 1 None idle)"
  let ?s2 = "state_of (meltdownDetectedAction (acting_as 7 SYSTEM flag_control) 1 ''first'' idle)"
  have s1: "store ?s1 = \<lparr>enabled = False, reason = ''Manual Admin Pause'', changedAt = 5, changedBy = ADMIN 1\<rparr>"
    by (simp add: forceMarketPause_def acting_as_def pause_def flag_control_def quiet_admin_def
        idle_def trading_on_def state_of_def Let_def)
  have s2: "store ?s2 = \<lparr>enabled = False, reason = ''riskScanner meltdown => first'', changedAt = 7, changedBy = SYSTEM\<rparr>"
    by (simp add: meltdownDetectedAction_def acting_as_def pause_def flag_control_def
        idle_def trading_on_def state_of_def Let_def)
  have h1: "\<not> enabled (store ?s1)" and h2: "\<not> enabled (store ?s2)"
    using s1 s2 by simp_all
  show ?thesis
    using s1 s2 admin_pause_not_overwritten [OF h1, of 1 9 flag_control 1 "''Flash Crash''"]
      admin_pause_not_overwritten [OF h2, of 1 9 flag_control 1 "''second''"]
    by simp
qed

section \<open>Resuming\<close>

text \<open>
  C7 at an input where it fails: admin 7 has the role \<open>tradermanager\<close>. The route
  \<open>pause_ai\<close> answers this admin with 403 and \<open>Permission denied\<close>; the route
  \<open>resume_ai\<close>, asked by the same admin while a superadmin's pause is in force, calls
  \<^verbatim>\<open>resumeGlobalTrading\<close> and answers 200. For every \<^verbatim>\<open>risk_control\<close>, role
  table and request, the answer of \<open>resume_ai\<close> is never the permission denial.
\<close>

theorem resume_ai_skips_role_check:
  "getAdminRole quiet_admin 7 = Inr ''tradermanager'' \<and>
   pause_ai flag_control quiet_admin 2 \<lparr>adminId = 7, body_reason = None\<rparr> idle =
     (Inr (Json 403 False ''Permission denied''), idle, []) \<and>
   resume_ai flag_control quiet_admin 2 \<lparr>adminId = 7, body_reason = None\<rparr> admin_paused =
     (Inr (Json 200 True ''AI Trading resumed globally.''),
      \<lparr>gate = None,
       store = \<lparr>enabled = True, reason = ''Manual Admin Pause'', changedAt = 5,
                changedBy = ADMIN 1\<rparr>\<rparr>,
      [ResumeCall 2]) \<and>
   result_of (resume_ai rc aenv me req s) \<noteq> Inr (Json 403 False ''Permission denied'')"
  by (simp add: getAdminRole_def pause_ai_def resume_ai_def flag_control_def quiet_admin_def
      admin_paused_def result_of_def split: sum.splits)

end
